theory Spec2Isabelle
  imports Complex_Main "HOL-Library.AList"
begin

section \<open>Social Media API: access control and soft-delete rules\<close>

text \<open>
  The handlers of \<^verbatim>\<open>app/routes\<close> are translated one by one.  A handler reads and
  writes the collections of the document store and either returns a response or raises;
  the model passes the store explicitly and returns the outcome together with the store
  after the call.  An \<^verbatim>\<open>HTTPException\<close> is answered with its status; any other exception
  that leaves a handler is answered with status 500.

  The document store is an external collaborator.  A collection is the list of its documents
  in natural order, \<^verbatim>\<open>find_one\<close> returns the first match, \<^verbatim>\<open>insert_one\<close> appends and
  \<^verbatim>\<open>update_one\<close> rewrites the first match.  A field path of an update is split at its dots,
  as the store does.
\<close>

subsection \<open>HTTP errors\<close>

datatype http_exception = HTTPException (status_code: nat) (detail: string)

abbreviation HTTP_400_BAD_REQUEST :: nat where "HTTP_400_BAD_REQUEST \<equiv> 400"
abbreviation HTTP_401_UNAUTHORIZED :: nat where "HTTP_401_UNAUTHORIZED \<equiv> 401"
abbreviation HTTP_403_FORBIDDEN :: nat where "HTTP_403_FORBIDDEN \<equiv> 403"
abbreviation HTTP_404_NOT_FOUND :: nat where "HTTP_404_NOT_FOUND \<equiv> 404"
abbreviation HTTP_422_UNPROCESSABLE_ENTITY :: nat where "HTTP_422_UNPROCESSABLE_ENTITY \<equiv> 422"
abbreviation HTTP_500_INTERNAL_SERVER_ERROR :: nat where "HTTP_500_INTERNAL_SERVER_ERROR \<equiv> 500"

text \<open>The answer to an exception that no handler catches.\<close>

definition internal_server_error :: http_exception where
  "internal_server_error = HTTPException HTTP_500_INTERNAL_SERVER_ERROR ''Internal Server Error''"

type_synonym datetime = nat

subsection \<open>Documents (\<^verbatim>\<open>app/models\<close>)\<close>

record user =
  u_id :: string
  username :: string
  email :: string
  first_name :: "string option"
  last_name :: "string option"
  profile_picture :: "string option"
  hashed_password :: string
  u_is_active :: bool
  u_created_at :: datetime
  u_updated_at :: datetime

record UserCreate =
  uc_username :: string
  uc_email :: string
  uc_first_name :: "string option"
  uc_last_name :: "string option"
  uc_profile_picture :: "string option"
  uc_password :: string

datatype GroupType = PUBLIC | PRIVATE | SECRET

fun GroupType_value :: "GroupType \<Rightarrow> string" where
  "GroupType_value PUBLIC = ''public''"
| "GroupType_value PRIVATE = ''private''"
| "GroupType_value SECRET = ''secret''"

record group =
  g_id :: string
  g_name :: string
  g_description :: "string option"
  icon :: "string option"
  g_cover_photo :: "string option"
  g_type :: string
  allow_member_posts :: bool
  allow_member_events :: bool
  admin_ids :: "string list"
  member_ids :: "string list"
  g_creator_id :: string
  g_is_active :: bool
  g_created_at :: datetime
  g_updated_at :: datetime

record event =
  e_id :: string
  e_name :: string
  e_description :: "string option"
  start_date :: datetime
  end_date :: datetime
  location :: string
  e_cover_photo :: "string option"
  privacy :: string
  organizers :: "string list"
  members :: "string list"
  e_group_id :: "string option"
  e_creator_id :: string
  e_is_active :: bool
  e_created_at :: datetime
  e_updated_at :: datetime

text \<open>
  A value inside a stored document: a number or an embedded document.  The counters of a
  question are numbers under the answers; an update along a dotted path embeds documents.
\<close>

datatype bson = BInt int | BDoc "(string \<times> bson) list"

text \<open>
  A question as stored inside a poll.  \<^verbatim>\<open>create_poll\<close> stores the questions with \<^verbatim>\<open>text\<close>,
  \<^verbatim>\<open>answers\<close> and \<^verbatim>\<open>response_counts\<close> only, so \<^verbatim>\<open>_id\<close>, \<^verbatim>\<open>poll_id\<close> and \<^verbatim>\<open>created_at\<close>
  may be absent from the document.
\<close>

record question =
  q_id :: "string option"
  q_text :: string
  answers :: "string list"
  q_poll_id :: "string option"
  response_counts :: "(string \<times> bson) list"
  q_created_at :: "datetime option"

record poll =
  p_id :: string
  title :: string
  p_description :: "string option"
  p_event_id :: string
  p_creator_id :: string
  questions :: "question list"
  is_anonymous :: bool
  allow_multiple_votes :: bool
  total_responses :: int
  p_is_active :: bool
  p_created_at :: datetime
  p_updated_at :: datetime

record vote =
  v_id :: string
  v_poll_id :: string
  v_question_id :: string
  v_user_id :: string
  v_answer :: string
  v_created_at :: datetime

record VoteCreate =
  vc_poll_id :: string
  vc_question_id :: string
  vc_answer :: string

record VoteResponse =
  success :: bool
  message :: string
  vr_poll_id :: string
  vr_question_id :: string
  chosen_answer :: string
  total_votes :: int

record ticket_type =
  tt_id :: string
  tt_name :: string
  tt_description :: "string option"
  tt_event_id :: string
  price :: real
  quantity :: int
  max_per_person :: int
  sold_count :: int
  tt_is_active :: bool
  tt_created_at :: datetime
  tt_updated_at :: datetime

record ticket =
  t_id :: string
  ticket_number :: string
  t_ticket_type_id :: string
  t_event_id :: string
  buyer_id :: string
  buyer_info :: "(string \<times> string) list"
  purchase_date :: datetime
  is_valid :: bool
  checked_in :: bool
  checked_in_at :: "datetime option"

record TicketPurchase =
  tp_ticket_type_id :: string
  tp_buyer_info :: "(string \<times> string) list"

record shopping_item =
  s_id :: string
  s_name :: string
  s_quantity :: int
  s_unit :: "string option"
  s_event_id :: string
  s_user_id :: string
  arrival_time :: "string option"
  s_notes :: "string option"
  is_brought :: bool
  is_unique :: bool
  s_is_active :: bool
  s_created_at :: datetime
  s_updated_at :: datetime

record ShoppingListResponse =
  sl_event_id :: string
  total_items :: nat
  brought_items :: nat
  pending_items :: nat
  items :: "shopping_item list"

subsection \<open>The store (\<^verbatim>\<open>app/database.py\<close>)\<close>

record database =
  users :: "user list option"
  events :: "event list option"
  groups :: "group list option"
  polls :: "poll list option"
  votes :: "vote list option"
  ticket_types :: "ticket_type list option"
  tickets :: "ticket list option"
  shopping_items :: "shopping_item list option"

text \<open>
  \<^verbatim>\<open>get_collection(name)\<close> returns \<^verbatim>\<open>database[name]\<close>.  A field of the record above is the
  handle so obtained: \<open>Some docs\<close> is a collection object holding \<open>docs\<close>, and \<open>None\<close> is
  the value \<^verbatim>\<open>None\<close>, with which the handlers of \<^verbatim>\<open>users.py\<close>, \<^verbatim>\<open>auth.py\<close> and
  \<^verbatim>\<open>validators.py\<close> compare the handle.

  The other handlers test the handle for truth (\<^verbatim>\<open>if not groups_collection:\<close>,
  \<^verbatim>\<open>if events_collection:\<close>).  What \<^verbatim>\<open>bool\<close> of a collection object does belongs to the
  driver and is the parameter \<open>coll_bool\<close> of those handlers: an exception or a truth value.
  The collection objects of Motor, which \<^verbatim>\<open>database.py\<close> builds, raise
  \<^verbatim>\<open>NotImplementedError\<close>; that is \<open>motor_bool\<close>.
\<close>

type_synonym truth = "http_exception + bool"

definition motor_bool :: truth where
  "motor_bool = Inl internal_server_error"

text \<open>
  The truth test of a handle: the exception, or \<open>None\<close> for a handle that tests false,
  or the documents of a handle that tests true.
\<close>

definition truthy :: "truth \<Rightarrow> 'a list option \<Rightarrow> http_exception + 'a list option" where
  "truthy coll_bool handle =
     (case handle of
        None \<Rightarrow> Inr None
      | Some docs \<Rightarrow>
          (case coll_bool of
             Inl e \<Rightarrow> Inl e
           | Inr b \<Rightarrow> if b then Inr (Some docs) else Inr None))"

text \<open>\<^verbatim>\<open>find_one(query)\<close> is \<^const>\<open>find\<close> with the query as a predicate.\<close>

definition find_one :: "('a \<Rightarrow> bool) \<Rightarrow> 'a list \<Rightarrow> 'a option" where
  "find_one query coll = find query coll"

definition count_documents :: "('a \<Rightarrow> bool) \<Rightarrow> 'a list \<Rightarrow> nat" where
  "count_documents query coll = length (filter query coll)"

definition insert_one :: "'a \<Rightarrow> 'a list \<Rightarrow> 'a list" where
  "insert_one doc coll = coll @ [doc]"

fun update_one :: "('a \<Rightarrow> bool) \<Rightarrow> ('a \<Rightarrow> 'a) \<Rightarrow> 'a list \<Rightarrow> 'a list" where
  "update_one query upd [] = []"
| "update_one query upd (d # ds) =
     (if query d then upd d # ds else d # update_one query upd ds)"

text \<open>An update that the store may reject: nothing is written then.\<close>

fun update_one_try ::
    "('a \<Rightarrow> bool) \<Rightarrow> ('a \<Rightarrow> http_exception + 'a) \<Rightarrow> 'a list \<Rightarrow> http_exception + 'a list" where
  "update_one_try query upd [] = Inr []"
| "update_one_try query upd (d # ds) =
     (if query d
      then (case upd d of Inl e \<Rightarrow> Inl e | Inr d' \<Rightarrow> Inr (d' # ds))
      else (case update_one_try query upd ds of Inl e \<Rightarrow> Inl e | Inr ds' \<Rightarrow> Inr (d # ds')))"

text \<open>\<^verbatim>\<open>find(query)\<close>, and \<^verbatim>\<open>to_list(length=n)\<close> on the cursor.\<close>

definition find_many :: "('a \<Rightarrow> bool) \<Rightarrow> 'a list \<Rightarrow> 'a list" where
  "find_many query coll = filter query coll"

definition to_list :: "nat \<Rightarrow> 'a list \<Rightarrow> 'a list" where
  "to_list n cursor = take n cursor"

text \<open>
  Pydantic builds a response model from keyword arguments.  A required field is read under
  its alias; when the key is missing the constructor raises \<^verbatim>\<open>ValidationError\<close>, which no
  handler catches.
\<close>

definition validate_required :: "string list \<Rightarrow> string list \<Rightarrow> http_exception + unit" where
  "validate_required required kwargs =
     (if list_all (\<lambda>k. k \<in> set kwargs) required then Inr () else Inl internal_server_error)"

subsection \<open>\<^verbatim>\<open>app/utils\<close>\<close>

text \<open>
  \<^verbatim>\<open>get_password_hash\<close> hashes the constant \<^verbatim>\<open>b'password'\<close> whatever its argument is; the
  bcrypt function with its salt is a parameter.
\<close>

definition get_password_hash :: "(string \<Rightarrow> string) \<Rightarrow> string \<Rightarrow> string" where
  "get_password_hash hashpw password = hashpw ''password''"

definition validate_email_unique ::
    "string \<Rightarrow> string option \<Rightarrow> database \<Rightarrow> http_exception + unit" where
  "validate_email_unique em exclude_user_id db =
     (case users db of
        None \<Rightarrow> Inr ()
      | Some users_collection \<Rightarrow>
          (case find_one (\<lambda>u. email u = em \<and> u_is_active u \<and>
                   (case exclude_user_id of
                      None \<Rightarrow> True
                    | Some x \<Rightarrow> if x = [] then True else u_id u \<noteq> x)) users_collection of
             Some existing_user \<Rightarrow>
               Inl (HTTPException HTTP_400_BAD_REQUEST ''Email already registered'')
           | None \<Rightarrow> Inr ()))"

subsection \<open>\<^verbatim>\<open>app/routes/auth.py\<close>\<close>

type_synonym payload = "(string \<times> string) list"

text \<open>
  \<^verbatim>\<open>jwt.decode\<close> with the secret key and the algorithm is the parameter \<open>jwt_decode\<close>:
  \<open>None\<close> stands for a \<^verbatim>\<open>JWTError\<close> (bad signature, expired or malformed token).
\<close>

definition get_current_user ::
    "(string \<Rightarrow> payload option) \<Rightarrow> string \<Rightarrow> database \<Rightarrow> http_exception + user" where
  "get_current_user jwt_decode token db =
     (let credentials_exception =
            HTTPException HTTP_401_UNAUTHORIZED ''Could not validate credentials''
      in case jwt_decode token of
           None \<Rightarrow> Inl credentials_exception
         | Some pl \<Rightarrow>
             (case map_of pl ''sub'' of
                None \<Rightarrow> Inl credentials_exception
              | Some user_id \<Rightarrow>
                  (case users db of
                     None \<Rightarrow> Inl credentials_exception
                   | Some users_collection \<Rightarrow>
                       (case find_one (\<lambda>u. u_id u = user_id) users_collection of
                          None \<Rightarrow> Inl credentials_exception
                        | Some u \<Rightarrow> Inr u))))"

text \<open>The new id is \<^verbatim>\<open>f"user_{datetime.utcnow().timestamp()}"\<close>; \<open>ts\<close> is the printed timestamp.\<close>

definition register ::
    "(string \<Rightarrow> string) \<Rightarrow> datetime \<Rightarrow> string \<Rightarrow> UserCreate \<Rightarrow> database
       \<Rightarrow> (http_exception + user) \<times> database" where
  "register hashpw now ts user_data db =
     (case validate_email_unique (uc_email user_data) None db of
        Inl e \<Rightarrow> (Inl e, db)
      | Inr _ \<Rightarrow>
          (let hashed = get_password_hash hashpw (uc_password user_data);
               user_dict = \<lparr> u_id = ''user_'' @ ts,
                             username = uc_username user_data,
                             email = uc_email user_data,
                             first_name = uc_first_name user_data,
                             last_name = uc_last_name user_data,
                             profile_picture = uc_profile_picture user_data,
                             hashed_password = hashed,
                             u_is_active = True,
                             u_created_at = now,
                             u_updated_at = now \<rparr>
           in case users db of
                None \<Rightarrow> (Inr user_dict, db)
              | Some users_collection \<Rightarrow>
                  (Inr user_dict, db\<lparr>users := Some (insert_one user_dict users_collection)\<rparr>)))"

text \<open>\<^verbatim>\<open>GET /auth/me\<close> answers with the user that \<^verbatim>\<open>get_current_user\<close> resolved.\<close>

definition read_users_me :: "user \<Rightarrow> user" where
  "read_users_me current_user = current_user"

subsection \<open>\<^verbatim>\<open>app/routes/users.py\<close>\<close>

definition get_user ::
    "string \<Rightarrow> user \<Rightarrow> database \<Rightarrow> (http_exception + user) \<times> database" where
  "get_user user_id current_user db =
     (case users db of
        None \<Rightarrow> (Inl (HTTPException HTTP_500_INTERNAL_SERVER_ERROR ''Database connection error''), db)
      | Some users_collection \<Rightarrow>
          (case find_one (\<lambda>u. u_id u = user_id \<and> u_is_active u) users_collection of
             None \<Rightarrow> (Inl (HTTPException HTTP_404_NOT_FOUND ''User not found''), db)
           | Some u \<Rightarrow> (Inr u, db)))"

definition delete_user ::
    "datetime \<Rightarrow> string \<Rightarrow> user \<Rightarrow> database \<Rightarrow> (http_exception + unit) \<times> database" where
  "delete_user now user_id current_user db =
     (case users db of
        None \<Rightarrow> (Inl (HTTPException HTTP_500_INTERNAL_SERVER_ERROR ''Database connection error''), db)
      | Some users_collection \<Rightarrow>
          (case find_one (\<lambda>u. u_id u = user_id \<and> u_is_active u) users_collection of
             None \<Rightarrow> (Inl (HTTPException HTTP_404_NOT_FOUND ''User not found''), db)
           | Some existing_user \<Rightarrow>
               if u_id current_user \<noteq> user_id
               then (Inl (HTTPException HTTP_403_FORBIDDEN ''Not authorized to delete this user''), db)
               else (Inr (),
                     db\<lparr>users := Some (update_one (\<lambda>u. u_id u = user_id)
                                          (\<lambda>u. u\<lparr>u_is_active := False, u_updated_at := now\<rparr>)
                                          users_collection)\<rparr>)))"

subsection \<open>\<^verbatim>\<open>app/routes/groups.py\<close>\<close>

text \<open>\<^verbatim>\<open>.sort("created_at", -1)\<close>: newest first.\<close>

definition sort_desc :: "('a \<Rightarrow> datetime) \<Rightarrow> 'a list \<Rightarrow> 'a list" where
  "sort_desc key cursor = rev (sort_key key cursor)"

text \<open>
  \<^verbatim>\<open>limit: int = Query(10, ge=1, le=100)\<close>: the route answers 422 to a limit outside the
  bounds, before the handler runs.
\<close>

definition get_groups ::
    "truth \<Rightarrow> nat \<Rightarrow> nat \<Rightarrow> GroupType option \<Rightarrow> user \<Rightarrow> database
       \<Rightarrow> (http_exception + group list) \<times> database" where
  "get_groups coll_bool skip limit group_type current_user db =
     (if limit < 1 \<or> 100 < limit
      then (Inl (HTTPException HTTP_422_UNPROCESSABLE_ENTITY ''Unprocessable Entity''), db)
      else
        (case truthy coll_bool (groups db) of
           Inl e \<Rightarrow> (Inl e, db)
         | Inr None \<Rightarrow>
             (Inl (HTTPException HTTP_500_INTERNAL_SERVER_ERROR ''Database connection error''), db)
         | Inr (Some groups_collection) \<Rightarrow>
             (let query = (\<lambda>g. g_is_active g \<and>
                               (case group_type of
                                  Some t \<Rightarrow> g_type g = GroupType_value t
                                | None \<Rightarrow> g_type g \<in> set [''public'', ''private'']));
                  cursor = take limit (drop skip
                             (sort_desc g_created_at (find_many query groups_collection)))
              in (Inr (to_list limit cursor), db))))"

record user_detail =
  ud_id :: string
  ud_username :: string
  ud_email :: string

definition details_of :: "string list \<Rightarrow> user list \<Rightarrow> user_detail list" where
  "details_of ids users_collection =
     (if ids = [] then []
      else map (\<lambda>a. \<lparr> ud_id = u_id a, ud_username = username a, ud_email = email a \<rparr>)
             (to_list (length ids)
                (find_many (\<lambda>u. u_id u \<in> set ids \<and> u_is_active u) users_collection)))"

record GroupResponse =
  gr_group :: group
  admin_details :: "user_detail list"
  gr_member_details :: "user_detail list"
  member_count :: nat
  event_count :: nat

text \<open>
  The keys of \<^verbatim>\<open>Group(**group).model_dump()\<close> are the field names of \<^verbatim>\<open>Group\<close>, so the
  identifier is under \<^verbatim>\<open>id\<close>.  \<^verbatim>\<open>GroupResponse\<close> inherits the field \<^verbatim>\<open>id\<close> with the alias
  \<^verbatim>\<open>_id\<close> and requires the fields below.
\<close>

definition Group_model_dump_keys :: "string list" where
  "Group_model_dump_keys =
     [''name'', ''description'', ''icon'', ''cover_photo'', ''id'', ''type'',
      ''allow_member_posts'', ''allow_member_events'', ''admin_ids'', ''member_ids'',
      ''creator_id'', ''is_active'', ''created_at'', ''updated_at'']"

definition GroupResponse_required :: "string list" where
  "GroupResponse_required =
     [''name'', ''_id'', ''type'', ''allow_member_posts'', ''allow_member_events'',
      ''admin_ids'', ''creator_id'']"

text \<open>
  \<^verbatim>\<open>member_ids\<close> is bound only under \<^verbatim>\<open>if users_collection:\<close>, so that
  \<^verbatim>\<open>len(member_ids)\<close> raises \<^verbatim>\<open>NameError\<close> when the handle tests false.
\<close>

definition get_group ::
    "truth \<Rightarrow> string \<Rightarrow> user \<Rightarrow> database \<Rightarrow> (http_exception + GroupResponse) \<times> database" where
  "get_group coll_bool group_id current_user db =
     (case truthy coll_bool (groups db) of
        Inl e \<Rightarrow> (Inl e, db)
      | Inr None \<Rightarrow>
          (Inl (HTTPException HTTP_500_INTERNAL_SERVER_ERROR ''Database connection error''), db)
      | Inr (Some groups_collection) \<Rightarrow>
          (case find_one (\<lambda>g. g_id g = group_id \<and> g_is_active g) groups_collection of
             None \<Rightarrow> (Inl (HTTPException HTTP_404_NOT_FOUND ''Group not found''), db)
           | Some grp \<Rightarrow>
               if g_type grp = ''secret'' \<and>
                  u_id current_user \<notin> set (member_ids grp) \<and>
                  u_id current_user \<notin> set (admin_ids grp) \<and>
                  u_id current_user \<noteq> g_creator_id grp
               then (Inl (HTTPException HTTP_403_FORBIDDEN ''Not authorized to view this secret group''), db)
               else
                 (case truthy coll_bool (users db) of
                    Inl e \<Rightarrow> (Inl e, db)
                  | Inr None \<Rightarrow> (Inl internal_server_error, db)
                  | Inr (Some users_collection) \<Rightarrow>
                      (case truthy coll_bool (events db) of
                         Inl e \<Rightarrow> (Inl e, db)
                       | Inr events_handle \<Rightarrow>
                           (case validate_required GroupResponse_required
                                   (Group_model_dump_keys @
                                    [''admin_details'', ''member_details'', ''member_count'',
                                     ''event_count'']) of
                              Inl e \<Rightarrow> (Inl e, db)
                            | Inr _ \<Rightarrow>
                                (Inr \<lparr> gr_group = grp,
                                       admin_details = details_of (admin_ids grp) users_collection,
                                       gr_member_details =
                                         details_of (member_ids grp) users_collection,
                                       member_count = length (member_ids grp),
                                       event_count =
                                         (case events_handle of
                                            None \<Rightarrow> 0
                                          | Some events_collection \<Rightarrow>
                                              count_documents
                                                (\<lambda>e. e_group_id e = Some group_id \<and> e_is_active e)
                                                events_collection) \<rparr>, db))))))"

text \<open>\<^verbatim>\<open>$addToSet\<close> and \<^verbatim>\<open>$pull\<close> on an array field.\<close>

definition addToSet :: "'a \<Rightarrow> 'a list \<Rightarrow> 'a list" where
  "addToSet x xs = (if x \<in> set xs then xs else xs @ [x])"

definition pull :: "'a \<Rightarrow> 'a list \<Rightarrow> 'a list" where
  "pull x xs = removeAll x xs"

text \<open>
  The handlers answer with \<^verbatim>\<open>Group(**updated_group)\<close>, the document read back by id; a
  missing document makes the constructor raise.
\<close>

definition read_back :: "('a \<Rightarrow> bool) \<Rightarrow> 'a list \<Rightarrow> http_exception + 'a" where
  "read_back query coll =
     (case find_one query coll of
        None \<Rightarrow> Inl internal_server_error
      | Some d \<Rightarrow> Inr d)"

definition join_group ::
    "truth \<Rightarrow> datetime \<Rightarrow> string \<Rightarrow> user \<Rightarrow> database
       \<Rightarrow> (http_exception + group) \<times> database" where
  "join_group coll_bool now group_id current_user db =
     (case truthy coll_bool (groups db) of
        Inl e \<Rightarrow> (Inl e, db)
      | Inr None \<Rightarrow>
          (Inl (HTTPException HTTP_500_INTERNAL_SERVER_ERROR ''Database connection error''), db)
      | Inr (Some groups_collection) \<Rightarrow>
          (case find_one (\<lambda>g. g_id g = group_id \<and> g_is_active g) groups_collection of
             None \<Rightarrow> (Inl (HTTPException HTTP_404_NOT_FOUND ''Group not found''), db)
           | Some grp \<Rightarrow>
               if g_type grp = ''secret''
               then (Inl (HTTPException HTTP_403_FORBIDDEN
                            ''Cannot join a secret group without invitation''), db)
               else if u_id current_user \<in> set (member_ids grp)
               then (Inl (HTTPException HTTP_400_BAD_REQUEST ''Already a member of this group''), db)
               else if u_id current_user \<in> set (admin_ids grp)
               then (Inl (HTTPException HTTP_400_BAD_REQUEST
                            ''Already an administrator of this group''), db)
               else
                 (let updated = update_one (\<lambda>g. g_id g = group_id)
                                  (\<lambda>g. g\<lparr>member_ids := addToSet (u_id current_user) (member_ids g),
                                         g_updated_at := now\<rparr>)
                                  groups_collection
                  in (read_back (\<lambda>g. g_id g = group_id) updated, db\<lparr>groups := Some updated\<rparr>))))"

definition leave_group ::
    "truth \<Rightarrow> datetime \<Rightarrow> string \<Rightarrow> user \<Rightarrow> database
       \<Rightarrow> (http_exception + group) \<times> database" where
  "leave_group coll_bool now group_id current_user db =
     (case truthy coll_bool (groups db) of
        Inl e \<Rightarrow> (Inl e, db)
      | Inr None \<Rightarrow>
          (Inl (HTTPException HTTP_500_INTERNAL_SERVER_ERROR ''Database connection error''), db)
      | Inr (Some groups_collection) \<Rightarrow>
          (case find_one (\<lambda>g. g_id g = group_id \<and> g_is_active g) groups_collection of
             None \<Rightarrow> (Inl (HTTPException HTTP_404_NOT_FOUND ''Group not found''), db)
           | Some grp \<Rightarrow>
               if u_id current_user \<notin> set (member_ids grp) \<and>
                  u_id current_user \<notin> set (admin_ids grp)
               then (Inl (HTTPException HTTP_400_BAD_REQUEST ''Not a member of this group''), db)
               else
                 (let is_admin = (u_id current_user \<in> set (admin_ids grp))
                  in if is_admin \<and> length (admin_ids grp) = 1 \<and>
                        take 1 (admin_ids grp) = [u_id current_user]
                     then (Inl (HTTPException HTTP_400_BAD_REQUEST
                                  ''Cannot leave group as the only administrator''), db)
                     else
                       (let in_members = (u_id current_user \<in> set (member_ids grp));
                            updated = update_one (\<lambda>g. g_id g = group_id)
                              (\<lambda>g. g\<lparr>member_ids := (if in_members
                                                      then pull (u_id current_user) (member_ids g)
                                                      else member_ids g),
                                     admin_ids := (if is_admin
                                                   then pull (u_id current_user) (admin_ids g)
                                                   else admin_ids g),
                                     g_updated_at := now\<rparr>)
                              groups_collection
                        in (read_back (\<lambda>g. g_id g = group_id) updated,
                            db\<lparr>groups := Some updated\<rparr>)))))"

subsection \<open>\<^verbatim>\<open>app/routes/events.py\<close>\<close>

record EventResponse =
  er_event :: event
  organizer_details :: "user_detail list"
  er_member_details :: "user_detail list"
  participant_count :: nat

text \<open>
  The keys of \<^verbatim>\<open>Event(**event).model_dump()\<close>, and the fields that \<^verbatim>\<open>EventResponse\<close>
  requires, the identifier under its alias \<^verbatim>\<open>_id\<close>.
\<close>

definition Event_model_dump_keys :: "string list" where
  "Event_model_dump_keys =
     [''name'', ''description'', ''start_date'', ''end_date'', ''location'', ''cover_photo'',
      ''privacy'', ''organizers'', ''members'', ''id'', ''group_id'', ''creator_id'',
      ''is_active'', ''created_at'', ''updated_at'']"

definition EventResponse_required :: "string list" where
  "EventResponse_required =
     [''name'', ''start_date'', ''end_date'', ''location'', ''_id'', ''creator_id'']"

definition get_event ::
    "truth \<Rightarrow> string \<Rightarrow> user \<Rightarrow> database \<Rightarrow> (http_exception + EventResponse) \<times> database" where
  "get_event coll_bool event_id current_user db =
     (case truthy coll_bool (events db) of
        Inl e \<Rightarrow> (Inl e, db)
      | Inr None \<Rightarrow>
          (Inl (HTTPException HTTP_500_INTERNAL_SERVER_ERROR ''Database connection error''), db)
      | Inr (Some events_collection) \<Rightarrow>
          (case find_one (\<lambda>e. e_id e = event_id \<and> e_is_active e) events_collection of
             None \<Rightarrow> (Inl (HTTPException HTTP_404_NOT_FOUND ''Event not found''), db)
           | Some ev \<Rightarrow>
               if privacy ev = ''private'' \<and>
                  u_id current_user \<notin> set (members ev) \<and>
                  u_id current_user \<notin> set (organizers ev) \<and>
                  u_id current_user \<noteq> e_creator_id ev
               then (Inl (HTTPException HTTP_403_FORBIDDEN
                            ''Not authorized to view this private event''), db)
               else
                 (case truthy coll_bool (users db) of
                    Inl e \<Rightarrow> (Inl e, db)
                  | Inr None \<Rightarrow> (Inl internal_server_error, db)
                  | Inr (Some users_collection) \<Rightarrow>
                      (case validate_required EventResponse_required
                              (Event_model_dump_keys @
                               [''organizer_details'', ''member_details'', ''participant_count'']) of
                         Inl e \<Rightarrow> (Inl e, db)
                       | Inr _ \<Rightarrow>
                           (Inr \<lparr> er_event = ev,
                                  organizer_details = details_of (organizers ev) users_collection,
                                  er_member_details = details_of (members ev) users_collection,
                                  participant_count =
                                    length (organizers ev) + length (members ev) \<rparr>, db)))))"

subsection \<open>\<^verbatim>\<open>app/routes/polls.py\<close>\<close>

text \<open>
  The loop of \<^verbatim>\<open>vote_poll\<close> over the questions reads \<^verbatim>\<open>question["_id"]\<close>: a question
  without the key raises \<^verbatim>\<open>KeyError\<close> when the loop reaches it.
\<close>

fun find_question :: "string \<Rightarrow> question list \<Rightarrow> http_exception + question option" where
  "find_question qid [] = Inr None"
| "find_question qid (q # qs) =
     (case q_id q of
        None \<Rightarrow> Inl internal_server_error
      | Some i \<Rightarrow> if i = qid then Inr (Some q) else find_question qid qs)"

text \<open>
  The update is \<^verbatim>\<open>{"$inc": {"total_responses": 1, "questions.$.response_counts." + answer: 1}}\<close>.
  The store splits the path at its dots; after \<^verbatim>\<open>response_counts\<close> the components are those
  of the answer.  It rejects a path with an empty component, creates what is missing on the
  way, adds to a number at the end of the path, and rejects the update when the path runs
  through a number or ends at an embedded document.  A rejected update is an exception of
  the driver.
\<close>

fun split_dots :: "string \<Rightarrow> string list" where
  "split_dots [] = [[]]"
| "split_dots (c # cs) =
     (if c = CHR ''.'' then [] # split_dots cs
      else (case split_dots cs of [] \<Rightarrow> [[c]] | w # ws \<Rightarrow> (c # w) # ws))"

fun new_field :: "string list \<Rightarrow> bson" where
  "new_field [] = BInt 1"
| "new_field (k # ks) = BDoc [(k, new_field ks)]"

fun inc_path :: "string list \<Rightarrow> (string \<times> bson) list \<Rightarrow> http_exception + (string \<times> bson) list" where
  "inc_path [] doc = Inl internal_server_error"
| "inc_path (k # ks) doc =
     (case map_of doc k of
        None \<Rightarrow> Inr (doc @ [(k, new_field ks)])
      | Some (BInt n) \<Rightarrow>
          if ks = [] then Inr (AList.update k (BInt (n + 1)) doc) else Inl internal_server_error
      | Some (BDoc d) \<Rightarrow>
          if ks = [] then Inl internal_server_error
          else (case inc_path ks d of
                  Inl e \<Rightarrow> Inl e
                | Inr d' \<Rightarrow> Inr (AList.update k (BDoc d') doc)))"

definition inc_response_count ::
    "string \<Rightarrow> (string \<times> bson) list \<Rightarrow> http_exception + (string \<times> bson) list" where
  "inc_response_count answer counts =
     (if [] \<in> set (split_dots answer) then Inl internal_server_error
      else inc_path (split_dots answer) counts)"

text \<open>The positional \<^verbatim>\<open>$\<close> is the first question that the filter \<^verbatim>\<open>questions._id\<close> matches.\<close>

definition inc_vote :: "string \<Rightarrow> string \<Rightarrow> poll \<Rightarrow> http_exception + poll" where
  "inc_vote question_id answer p =
     (case update_one_try (\<lambda>q. q_id q = Some question_id)
             (\<lambda>q. case inc_response_count answer (response_counts q) of
                    Inl e \<Rightarrow> Inl e
                  | Inr counts \<Rightarrow> Inr (q\<lparr>response_counts := counts\<rparr>))
             (questions p) of
        Inl e \<Rightarrow> Inl e
      | Inr qs \<Rightarrow> Inr (p\<lparr>total_responses := total_responses p + 1, questions := qs\<rparr>))"

definition vote_poll ::
    "truth \<Rightarrow> datetime \<Rightarrow> string \<Rightarrow> VoteCreate \<Rightarrow> user \<Rightarrow> database
       \<Rightarrow> (http_exception + VoteResponse) \<times> database" where
  "vote_poll coll_bool now ts vote_data current_user db =
     (case truthy coll_bool (polls db) of
        Inl e \<Rightarrow> (Inl e, db)
      | Inr None \<Rightarrow>
          (Inl (HTTPException HTTP_500_INTERNAL_SERVER_ERROR ''Database connection error''), db)
      | Inr (Some polls_collection) \<Rightarrow>
          (case find_one (\<lambda>p. p_id p = vc_poll_id vote_data \<and> p_is_active p) polls_collection of
             None \<Rightarrow> (Inl (HTTPException HTTP_404_NOT_FOUND ''Poll not found''), db)
           | Some pl \<Rightarrow>
               (case truthy coll_bool (events db) of
                  Inl e \<Rightarrow> (Inl e, db)
                | Inr events_handle \<Rightarrow>
                    if (case events_handle of
                          None \<Rightarrow> False
                        | Some events_collection \<Rightarrow>
                            (case find_one (\<lambda>e. e_id e = p_event_id pl \<and> e_is_active e)
                                    events_collection of
                               None \<Rightarrow> False
                             | Some ev \<Rightarrow> u_id current_user \<notin> set (members ev) \<and>
                                          u_id current_user \<notin> set (organizers ev)))
                    then (Inl (HTTPException HTTP_403_FORBIDDEN
                                 ''Not authorized to vote in this poll''), db)
                    else
                      (case (if allow_multiple_votes pl then Inr False
                             else (case truthy coll_bool (votes db) of
                                     Inl e \<Rightarrow> Inl e
                                   | Inr None \<Rightarrow> Inr False
                                   | Inr (Some votes_collection) \<Rightarrow>
                                       Inr (find_one (\<lambda>v. v_poll_id v = vc_poll_id vote_data \<and>
                                                          v_user_id v = u_id current_user)
                                              votes_collection \<noteq> None))) of
                         Inl e \<Rightarrow> (Inl e, db)
                       | Inr existing_vote \<Rightarrow>
                           if existing_vote
                           then (Inl (HTTPException HTTP_400_BAD_REQUEST
                                        ''You have already voted in this poll''), db)
                           else
                             (case find_question (vc_question_id vote_data) (questions pl) of
                                Inl e \<Rightarrow> (Inl e, db)
                              | Inr None \<Rightarrow>
                                  (Inl (HTTPException HTTP_404_NOT_FOUND
                                          ''Question not found in this poll''), db)
                              | Inr (Some qu) \<Rightarrow>
                                  if vc_answer vote_data \<notin> set (answers qu)
                                  then (Inl (HTTPException HTTP_400_BAD_REQUEST
                                               ''Invalid answer for this question''), db)
                                  else
                                    (case truthy coll_bool (votes db) of
                                       Inl e \<Rightarrow> (Inl e, db)
                                     | Inr votes_handle \<Rightarrow>
                                         (let vote_dict =
                                                \<lparr> v_id = ''vote_'' @ ts,
                                                  v_poll_id = vc_poll_id vote_data,
                                                  v_question_id = vc_question_id vote_data,
                                                  v_user_id = u_id current_user,
                                                  v_answer = vc_answer vote_data,
                                                  v_created_at = now \<rparr>;
                                              db1 = (case votes_handle of
                                                       None \<Rightarrow> db
                                                     | Some votes_collection \<Rightarrow>
                                                         db\<lparr>votes := Some (insert_one vote_dict
                                                                             votes_collection)\<rparr>)
                                          in case update_one_try
                                                    (\<lambda>p. p_id p = vc_poll_id vote_data \<and>
                                                         list_ex (\<lambda>q. q_id q =
                                                                    Some (vc_question_id vote_data))
                                                           (questions p))
                                                    (inc_vote (vc_question_id vote_data)
                                                       (vc_answer vote_data))
                                                    polls_collection of
                                               Inl e \<Rightarrow> (Inl e, db1)
                                             | Inr updated \<Rightarrow>
                                                 (Inr \<lparr> success = True,
                                                        message = ''Vote recorded successfully'',
                                                        vr_poll_id = vc_poll_id vote_data,
                                                        vr_question_id = vc_question_id vote_data,
                                                        chosen_answer = vc_answer vote_data,
                                                        total_votes =
                                                          (case find_one
                                                                  (\<lambda>p. p_id p = vc_poll_id vote_data)
                                                                  updated of
                                                             None \<Rightarrow> 0
                                                           | Some updated_poll \<Rightarrow>
                                                               total_responses updated_poll) \<rparr>,
                                                  db1\<lparr>polls := Some updated\<rparr>))))))))"

subsection \<open>\<^verbatim>\<open>app/routes/tickets.py\<close>\<close>

text \<open>
  \<open>ts\<close> is the printed timestamp and \<open>ymd\<close> the date printed by
  \<^verbatim>\<open>strftime('%Y%m%d')\<close>; \<^verbatim>\<open>current_user.id[-6:]\<close> is the last six characters of the id.
\<close>

text \<open>The decimal text of an integer, as the f-string of the error detail prints it.\<close>

fun str_nat :: "nat \<Rightarrow> string" where
  "str_nat n =
     (if n < 10 then [''0123456789'' ! n]
      else str_nat (n div 10) @ [''0123456789'' ! (n mod 10)])"

declare str_nat.simps [simp del]

definition str_int :: "int \<Rightarrow> string" where
  "str_int i = (if i < 0 then ''-'' @ str_nat (nat (- i)) else str_nat (nat i))"

definition last6 :: "string \<Rightarrow> string" where
  "last6 s = drop (length s - 6) s"

text \<open>
  The handle of the tickets is tested twice, before the count and before the insert, with
  the same outcome.
\<close>

definition purchase_ticket ::
    "truth \<Rightarrow> datetime \<Rightarrow> string \<Rightarrow> string \<Rightarrow> TicketPurchase \<Rightarrow> user \<Rightarrow> database
       \<Rightarrow> (http_exception + ticket) \<times> database" where
  "purchase_ticket coll_bool now ts ymd purchase_data current_user db =
     (case truthy coll_bool (ticket_types db) of
        Inl e \<Rightarrow> (Inl e, db)
      | Inr None \<Rightarrow>
          (Inl (HTTPException HTTP_500_INTERNAL_SERVER_ERROR ''Database connection error''), db)
      | Inr (Some ticket_types_collection) \<Rightarrow>
          (case find_one (\<lambda>t. tt_id t = tp_ticket_type_id purchase_data \<and> tt_is_active t)
                  ticket_types_collection of
             None \<Rightarrow> (Inl (HTTPException HTTP_404_NOT_FOUND ''Ticket type not found''), db)
           | Some tt \<Rightarrow>
               (let available = quantity tt - sold_count tt
                in if available \<le> 0
                   then (Inl (HTTPException HTTP_400_BAD_REQUEST
                                ''No tickets available for this type''), db)
                   else
                     (case truthy coll_bool (tickets db) of
                        Inl e \<Rightarrow> (Inl e, db)
                      | Inr tickets_handle \<Rightarrow>
                          if (case tickets_handle of
                                None \<Rightarrow> False
                              | Some tickets_collection \<Rightarrow>
                                  max_per_person tt \<le>
                                    int (count_documents
                                           (\<lambda>t. t_ticket_type_id t =
                                                  tp_ticket_type_id purchase_data \<and>
                                                buyer_id t = u_id current_user \<and> is_valid t)
                                           tickets_collection))
                          then (Inl (HTTPException HTTP_400_BAD_REQUEST
                                       (''Maximum '' @ str_int (max_per_person tt) @
                                        '' ticket(s) per person reached'')), db)
                          else
                            (let ticket_dict =
                                   \<lparr> t_id = ''ticket_'' @ ts @ ''_'' @ u_id current_user,
                                     ticket_number =
                                       ''TKT-'' @ ymd @ ''-'' @ last6 (u_id current_user),
                                     t_ticket_type_id = tp_ticket_type_id purchase_data,
                                     t_event_id = tt_event_id tt,
                                     buyer_id = u_id current_user,
                                     buyer_info = tp_buyer_info purchase_data,
                                     purchase_date = now,
                                     is_valid = True,
                                     checked_in = False,
                                     checked_in_at = None \<rparr>;
                                 db1 = (case tickets_handle of
                                          None \<Rightarrow> db
                                        | Some tickets_collection \<Rightarrow>
                                            db\<lparr>tickets := Some (insert_one ticket_dict
                                                                  tickets_collection)\<rparr>)
                             in (Inr ticket_dict,
                                 db1\<lparr>ticket_types :=
                                       Some (update_one
                                               (\<lambda>t. tt_id t = tp_ticket_type_id purchase_data)
                                               (\<lambda>t. t\<lparr>sold_count := sold_count t + 1\<rparr>)
                                               ticket_types_collection)\<rparr>))))))"

subsection \<open>\<^verbatim>\<open>app/routes/shopping.py\<close>\<close>

definition get_event_shopping_list ::
    "truth \<Rightarrow> string \<Rightarrow> user \<Rightarrow> database
       \<Rightarrow> (http_exception + ShoppingListResponse) \<times> database" where
  "get_event_shopping_list coll_bool event_id current_user db =
     (case truthy coll_bool (events db) of
        Inl e \<Rightarrow> (Inl e, db)
      | Inr events_handle \<Rightarrow>
          (case (case events_handle of
                   None \<Rightarrow> None
                 | Some events_collection \<Rightarrow>
                     (case find_one (\<lambda>e. e_id e = event_id \<and> e_is_active e) events_collection of
                        None \<Rightarrow> Some (HTTPException HTTP_404_NOT_FOUND ''Event not found'')
                      | Some ev \<Rightarrow>
                          if u_id current_user \<notin> set (members ev) \<and>
                             u_id current_user \<notin> set (organizers ev)
                          then Some (HTTPException HTTP_403_FORBIDDEN
                                       ''Not authorized to view shopping list for this event'')
                          else None)) of
             Some e \<Rightarrow> (Inl e, db)
           | None \<Rightarrow>
               (case truthy coll_bool (shopping_items db) of
                  Inl e \<Rightarrow> (Inl e, db)
                | Inr None \<Rightarrow>
                    (Inl (HTTPException HTTP_500_INTERNAL_SERVER_ERROR
                            ''Database connection error''), db)
                | Inr (Some shopping_collection) \<Rightarrow>
                    (let its = to_list 100
                                 (find_many (\<lambda>i. s_event_id i = event_id) shopping_collection);
                         total = length its;
                         brought = length (filter is_brought its)
                     in (Inr \<lparr> sl_event_id = event_id,
                               total_items = total,
                               brought_items = brought,
                               pending_items = total - brought,
                               items = its \<rparr>, db)))))"

subsection \<open>A small store\<close>

text \<open>
  Four users, of whom \<open>dave\<close> has deleted his account; a private event organised by
  \<open>alice\<close> with \<open>bob\<close> as member; two secret groups; three polls, two ticket types and a
  shopping list for the event.
\<close>

definition alice :: user where
  "alice = \<lparr> u_id = ''user_1'', username = ''alice'', email = ''alice@example.com'',
              first_name = None, last_name = None, profile_picture = None,
              hashed_password = ''$2b$'', u_is_active = True,
              u_created_at = 1, u_updated_at = 1 \<rparr>"

definition bob :: user where
  "bob = \<lparr> u_id = ''user_2'', username = ''bob'', email = ''bob@example.com'',
            first_name = None, last_name = None, profile_picture = None,
            hashed_password = ''$2b$'', u_is_active = True,
            u_created_at = 2, u_updated_at = 2 \<rparr>"

definition carol :: user where
  "carol = \<lparr> u_id = ''user_3'', username = ''carol'', email = ''carol@example.com'',
              first_name = None, last_name = None, profile_picture = None,
              hashed_password = ''$2b$'', u_is_active = True,
              u_created_at = 3, u_updated_at = 3 \<rparr>"

definition dave :: user where
  "dave = \<lparr> u_id = ''user_4'', username = ''dave'', email = ''dave@example.com'',
             first_name = None, last_name = None, profile_picture = None,
             hashed_password = ''$2b$'', u_is_active = False,
             u_created_at = 4, u_updated_at = 9 \<rparr>"

definition party :: event where
  "party = \<lparr> e_id = ''event_1'', e_name = ''party'', e_description = None,
              start_date = 100, end_date = 200, location = ''Paris'', e_cover_photo = None,
              privacy = ''private'', organizers = [''user_1''], members = [''user_2''],
              e_group_id = None, e_creator_id = ''user_1'', e_is_active = True,
              e_created_at = 5, e_updated_at = 5 \<rparr>"

definition cabal :: group where
  "cabal = \<lparr> g_id = ''group_1'', g_name = ''cabal'', g_description = None, icon = None,
              g_cover_photo = None, g_type = ''secret'', allow_member_posts = True,
              allow_member_events = True, admin_ids = [''user_1''], member_ids = [''user_2''],
              g_creator_id = ''user_1'', g_is_active = True,
              g_created_at = 10, g_updated_at = 10 \<rparr>"

definition lodge :: group where
  "lodge = \<lparr> g_id = ''group_2'', g_name = ''lodge'', g_description = None, icon = None,
              g_cover_photo = None, g_type = ''secret'', allow_member_posts = True,
              allow_member_events = True, admin_ids = [''user_3''], member_ids = [],
              g_creator_id = ''user_3'', g_is_active = True,
              g_created_at = 20, g_updated_at = 20 \<rparr>"

definition dish :: question where
  "dish = \<lparr> q_id = Some ''question_1'', q_text = ''Which dish?'',
             answers = [''pizza'', ''sushi''], q_poll_id = Some ''poll_1'',
             response_counts = [(''pizza'', BInt 2), (''sushi'', BInt 1)],
             q_created_at = Some 6 \<rparr>"

definition lunch :: poll where
  "lunch = \<lparr> p_id = ''poll_1'', title = ''lunch'', p_description = None,
              p_event_id = ''event_1'', p_creator_id = ''user_1'', questions = [dish],
              is_anonymous = False, allow_multiple_votes = False, total_responses = 3,
              p_is_active = True, p_created_at = 6, p_updated_at = 6 \<rparr>"

text \<open>A question with an answer that contains a dot.\<close>

definition version :: question where
  "version = \<lparr> q_id = Some ''question_2'', q_text = ''Which version?'',
                answers = [''v1.0'', ''v2''], q_poll_id = Some ''poll_2'',
                response_counts = [(''v1.0'', BInt 2), (''v2'', BInt 0)],
                q_created_at = Some 6 \<rparr>"

definition release :: poll where
  "release = \<lparr> p_id = ''poll_2'', title = ''release'', p_description = None,
                p_event_id = ''event_1'', p_creator_id = ''user_1'', questions = [version],
                is_anonymous = False, allow_multiple_votes = False, total_responses = 2,
                p_is_active = True, p_created_at = 6, p_updated_at = 6 \<rparr>"

text \<open>A poll as \<^verbatim>\<open>create_poll\<close> stores it: the question has no \<^verbatim>\<open>_id\<close>.\<close>

definition untitled :: question where
  "untitled = \<lparr> q_id = None, q_text = ''Shall we?'', answers = [''yes'', ''no''],
                 q_poll_id = None, response_counts = [(''yes'', BInt 0), (''no'', BInt 0)],
                 q_created_at = None \<rparr>"

definition draft :: poll where
  "draft = \<lparr> p_id = ''poll_3'', title = ''draft'', p_description = None,
              p_event_id = ''event_1'', p_creator_id = ''user_1'', questions = [untitled],
              is_anonymous = False, allow_multiple_votes = False, total_responses = 0,
              p_is_active = True, p_created_at = 7, p_updated_at = 7 \<rparr>"

definition standard :: ticket_type where
  "standard = \<lparr> tt_id = ''ticket_type_1'', tt_name = ''standard'', tt_description = None,
                 tt_event_id = ''event_1'', price = 10, quantity = 2, max_per_person = 1,
                 sold_count = 1, tt_is_active = True, tt_created_at = 7, tt_updated_at = 7 \<rparr>"

definition vip :: ticket_type where
  "vip = \<lparr> tt_id = ''ticket_type_2'', tt_name = ''vip'', tt_description = None,
            tt_event_id = ''event_1'', price = 50, quantity = 1, max_per_person = 1,
            sold_count = 1, tt_is_active = True, tt_created_at = 7, tt_updated_at = 7 \<rparr>"

definition bobs_ticket :: ticket where
  "bobs_ticket = \<lparr> t_id = ''ticket_8.0_user_2'', ticket_number = ''TKT-20240101-user_2'',
                    t_ticket_type_id = ''ticket_type_1'', t_event_id = ''event_1'',
                    buyer_id = ''user_2'', buyer_info = [(''first_name'', ''Bob'')],
                    purchase_date = 8, is_valid = True, checked_in = False,
                    checked_in_at = None \<rparr>"

definition chips :: shopping_item where
  "chips = \<lparr> s_id = ''shopping_1'', s_name = ''chips'', s_quantity = 3, s_unit = None,
              s_event_id = ''event_1'', s_user_id = ''user_2'', arrival_time = None,
              s_notes = None, is_brought = False, is_unique = True, s_is_active = True,
              s_created_at = 8, s_updated_at = 8 \<rparr>"

definition stale_bread :: shopping_item where
  "stale_bread = \<lparr> s_id = ''shopping_2'', s_name = ''bread'', s_quantity = 1, s_unit = None,
                    s_event_id = ''event_1'', s_user_id = ''user_1'', arrival_time = None,
                    s_notes = None, is_brought = False, is_unique = True, s_is_active = False,
                    s_created_at = 8, s_updated_at = 9 \<rparr>"

definition example_db :: database where
  "example_db = \<lparr> users = Some [alice, bob, carol, dave],
                   events = Some [party],
                   groups = Some [cabal, lodge],
                   polls = Some [lunch, release, draft],
                   votes = Some [],
                   ticket_types = Some [standard, vip],
                   tickets = Some [bobs_ticket],
                   shopping_items = Some [chips, stale_bread] \<rparr>"

text \<open>A decoder that accepts one token, issued to \<open>dave\<close> before he deleted his account.\<close>

definition example_jwt_decode :: "string \<Rightarrow> payload option" where
  "example_jwt_decode token =
     (if token = ''token_dave'' then Some [(''sub'', ''user_4''), (''exp'', ''1800'')] else None)"

definition alice_again :: UserCreate where
  "alice_again = \<lparr> uc_username = ''alice2'', uc_email = ''alice@example.com'',
                    uc_first_name = None, uc_last_name = None, uc_profile_picture = None,
                    uc_password = ''correct horse'' \<rparr>"

definition vote_pizza :: VoteCreate where
  "vote_pizza = \<lparr> vc_poll_id = ''poll_1'', vc_question_id = ''question_1'', vc_answer = ''pizza'' \<rparr>"

definition vote_sushi :: VoteCreate where
  "vote_sushi = \<lparr> vc_poll_id = ''poll_1'', vc_question_id = ''question_1'', vc_answer = ''sushi'' \<rparr>"

text \<open>An answer that the question does not declare.\<close>

definition vote_tacos :: VoteCreate where
  "vote_tacos = \<lparr> vc_poll_id = ''poll_1'', vc_question_id = ''question_1'', vc_answer = ''tacos'' \<rparr>"

definition bobs_vote :: vote where
  "bobs_vote = \<lparr> v_id = ''vote_9.0'', v_poll_id = ''poll_1'', v_question_id = ''question_1'',
                  v_user_id = ''user_2'', v_answer = ''sushi'', v_created_at = 9 \<rparr>"

definition buy_standard :: TicketPurchase where
  "buy_standard = \<lparr> tp_ticket_type_id = ''ticket_type_1'', tp_buyer_info = [] \<rparr>"

definition buy_vip :: TicketPurchase where
  "buy_vip = \<lparr> tp_ticket_type_id = ''ticket_type_2'', tp_buyer_info = [] \<rparr>"

definition vote_v1 :: VoteCreate where
  "vote_v1 = \<lparr> vc_poll_id = ''poll_2'', vc_question_id = ''question_2'', vc_answer = ''v1.0'' \<rparr>"

definition vote_yes :: VoteCreate where
  "vote_yes = \<lparr> vc_poll_id = ''poll_3'', vc_question_id = ''question_3'', vc_answer = ''yes'' \<rparr>"

definition vote_unknown_question :: VoteCreate where
  "vote_unknown_question =
     \<lparr> vc_poll_id = ''poll_1'', vc_question_id = ''question_9'', vc_answer = ''pizza'' \<rparr>"

text \<open>A decoder that accepts a token whose subject is \<open>carol\<close>.\<close>

definition carol_jwt_decode :: "string \<Rightarrow> payload option" where
  "carol_jwt_decode token =
     (if token = ''token_carol'' then Some [(''sub'', ''user_3''), (''exp'', ''1800'')] else None)"

lemmas example_defs =
  alice_def bob_def carol_def dave_def party_def cabal_def lodge_def dish_def lunch_def
  version_def release_def untitled_def draft_def
  standard_def vip_def bobs_ticket_def chips_def stale_bread_def example_db_def
  example_jwt_decode_def alice_again_def vote_pizza_def vote_sushi_def vote_tacos_def
  bobs_vote_def buy_standard_def buy_vip_def vote_v1_def vote_yes_def
  vote_unknown_question_def carol_jwt_decode_def

section \<open>Properties\<close>

subsection \<open>Facts about the store operations\<close>

lemma find_Some_mem: "find P xs = Some x \<Longrightarrow> x \<in> set xs \<and> P x"
  by (induction xs) (auto split: if_splits)

lemma distinct_same_key:
  "distinct (map f xs) \<Longrightarrow> x \<in> set xs \<Longrightarrow> y \<in> set xs \<Longrightarrow> f y = f x \<Longrightarrow> y = x"
  by (meson distinct_map inj_on_def)

lemma update_one_set:
  "distinct (map f xs) \<Longrightarrow> x \<in> set xs \<Longrightarrow>
   set (update_one (\<lambda>y. f y = f x) g xs) = insert (g x) (set xs - {x})"
  by (induction xs) (auto simp: image_iff)

text \<open>Reading a document back after \<^const>\<open>update_one\<close> by its key.\<close>

lemma find_update_one:
  "distinct (map f xs) \<Longrightarrow> x \<in> set xs \<Longrightarrow> f (g x) = f x \<Longrightarrow> P (g x) \<Longrightarrow>
   (\<And>y. P y \<Longrightarrow> f y = f x) \<Longrightarrow>
   find P (update_one (\<lambda>y. f y = f x) g xs) = Some (g x)"
  by (induction xs) (auto simp: image_iff)

lemma update_one_query_cong:
  "(\<And>y. y \<in> set xs \<Longrightarrow> Q y = Q' y) \<Longrightarrow> update_one Q g xs = update_one Q' g xs"
  by (induction xs) auto

lemma find_query_cong:
  "(\<And>y. y \<in> set xs \<Longrightarrow> Q y = Q' y) \<Longrightarrow> find Q xs = find Q' xs"
  by (induction xs) auto

lemma find_update_one_same:
  "find P xs = Some x \<Longrightarrow> P (h x) \<Longrightarrow> find P (update_one P h xs) = Some (h x)"
  by (induction xs) (auto split: if_splits)

lemma find_distinct:
  "distinct (map f xs) \<Longrightarrow> x \<in> set xs \<Longrightarrow> find (\<lambda>y. f y = f x) xs = Some x"
  by (induction xs) (auto simp: image_iff)

lemma update_one_try_ok:
  "find P xs = Some x \<Longrightarrow> u x = Inr (g x) \<Longrightarrow> update_one_try P u xs = Inr (update_one P g xs)"
  by (induction xs) (auto split: if_splits)

lemma split_dots_plain: "CHR ''.'' \<notin> set a \<Longrightarrow> split_dots a = [a]"
  by (induction a) auto

lemma inc_response_count_plain:
  assumes "a \<noteq> []" "CHR ''.'' \<notin> set a" "map_of counts a = Some (BInt n)"
  shows "inc_response_count a counts = Inr (AList.update a (BInt (n + 1)) counts)"
  using assms by (simp add: inc_response_count_def split_dots_plain)

lemma find_question_all_ids:
  "list_all (\<lambda>q. q_id q \<noteq> None) qs \<Longrightarrow>
   find_question qid qs = Inr (find (\<lambda>q. q_id q = Some qid) qs)"
  by (induction qs) (auto split: option.splits)

lemma truthy_True [simp]: "truthy (Inr True) handle = Inr handle"
  by (cases handle) (simp_all add: truthy_def)

lemma truthy_motor [simp]: "truthy motor_bool (Some docs) = Inl internal_server_error"
  by (simp add: truthy_def motor_bool_def)

subsection \<open>Soft delete and reads\<close>

text \<open>
  C1.  No list or get endpoint returns a record whose \<open>is_active\<close> is false.
  \<open>carol\<close> deletes her account with \<^verbatim>\<open>DELETE /users/user_3\<close>; a token whose subject she
  is stays valid until it expires.  \<^verbatim>\<open>get_current_user\<close> finds her document by \<^verbatim>\<open>_id\<close> alone, and
  \<^verbatim>\<open>GET /auth/me\<close> answers with it: a record whose \<open>is_active\<close> is false.
\<close>

theorem auth_me_returns_deleted_user:
  "delete_user 70 ''user_3'' carol example_db =
     (Inr (), example_db\<lparr>users :=
                Some [alice, bob, carol\<lparr>u_is_active := False, u_updated_at := 70\<rparr>, dave]\<rparr>)
   \<and> get_current_user carol_jwt_decode ''token_carol''
       (example_db\<lparr>users :=
          Some [alice, bob, carol\<lparr>u_is_active := False, u_updated_at := 70\<rparr>, dave]\<rparr>) =
       Inr (carol\<lparr>u_is_active := False, u_updated_at := 70\<rparr>)
   \<and> read_users_me (carol\<lparr>u_is_active := False, u_updated_at := 70\<rparr>) =
       carol\<lparr>u_is_active := False, u_updated_at := 70\<rparr>
   \<and> u_is_active (carol\<lparr>u_is_active := False, u_updated_at := 70\<rparr>) = False"
  by (simp add: delete_user_def get_current_user_def read_users_me_def find_one_def example_defs)

text \<open>
  The shopping list is read with the query \<^verbatim>\<open>{"event_id": event_id}\<close>, without
  \<open>is_active\<close>: with a handle that tests true an inactive item is listed and counted.  With
  the handle of the repository the truth test raises before the read.
\<close>

lemma shopping_list_has_no_active_filter:
  "get_event_shopping_list (Inr True) ''event_1'' alice example_db =
     (Inr \<lparr> sl_event_id = ''event_1'', total_items = 2, brought_items = 0, pending_items = 2,
            items = [chips, stale_bread] \<rparr>, example_db)
   \<and> s_is_active stale_bread = False
   \<and> get_event_shopping_list motor_bool ''event_1'' alice example_db =
       (Inl internal_server_error, example_db)"
  by (simp add: get_event_shopping_list_def find_one_def find_many_def to_list_def Let_def
           example_defs)

subsection \<open>Groups\<close>

text \<open>
  C2.  A leave request by the sole administrator of a group fails with 400 and leaves the
  group as it was.  \<^verbatim>\<open>leave_group\<close> begins with \<^verbatim>\<open>if not groups_collection:\<close>: on the handle
  of the repository the request of \<open>alice\<close>, the sole administrator of \<open>cabal\<close>, is answered
  with 500.  Where the handle tests true, the refusal tests \<^verbatim>\<open>len(admin_ids) == 1\<close>:
  \<^verbatim>\<open>create_group\<close> stores \<^verbatim>\<open>admin_ids\<close> as sent, and when the list names the sole
  administrator twice the leave succeeds and \<^verbatim>\<open>$pull\<close> leaves the group without
  administrator.
\<close>

theorem sole_admin_leave_not_refused:
  "admin_ids cabal = [u_id alice]
   \<and> leave_group motor_bool 30 ''group_1'' alice example_db =
       (Inl internal_server_error, example_db)
   \<and> set (admin_ids (cabal\<lparr>admin_ids := [''user_1'', ''user_1'']\<rparr>)) = {u_id alice}
   \<and> leave_group (Inr True) 30 ''group_1'' alice
       (example_db\<lparr>groups := Some [cabal\<lparr>admin_ids := [''user_1'', ''user_1'']\<rparr>]\<rparr>) =
       (Inr (cabal\<lparr>admin_ids := [], g_updated_at := 30\<rparr>),
        example_db\<lparr>groups := Some [cabal\<lparr>admin_ids := [], g_updated_at := 30\<rparr>]\<rparr>)"
  by (simp add: leave_group_def find_one_def read_back_def pull_def Let_def example_defs)

text \<open>
  The branch that the claim describes: with a handle that tests true and one entry in
  \<open>admin_ids\<close>, the leave of that administrator is refused with 400 and nothing is written.
\<close>

lemma leave_group_one_admin_entry:
  assumes "groups db = Some gs"
    and "find_one (\<lambda>g. g_id g = group_id \<and> g_is_active g) gs = Some grp"
    and "admin_ids grp = [u_id current_user]"
  shows "leave_group (Inr True) now group_id current_user db =
           (Inl (HTTPException HTTP_400_BAD_REQUEST ''Cannot leave group as the only administrator''),
            db)"
  using assms by (simp add: leave_group_def)

text \<open>
  C8.  For an active secret group, a get request by a user who is neither member, nor
  administrator, nor creator fails with 403, and a join request fails for every caller.
  \<^verbatim>\<open>get_group\<close> and \<^verbatim>\<open>join_group\<close> begin with \<^verbatim>\<open>if not groups_collection:\<close>: on the handle
  of the repository both requests are answered with 500, the get request of the outsider
  \<open>carol\<close> included.
\<close>

theorem secret_group_requests_raise:
  "g_is_active cabal \<and> g_type cabal = ''secret''
   \<and> u_id carol \<notin> set (member_ids cabal) \<and> u_id carol \<notin> set (admin_ids cabal)
   \<and> u_id carol \<noteq> g_creator_id cabal
   \<and> get_group motor_bool ''group_1'' carol example_db = (Inl internal_server_error, example_db)
   \<and> join_group motor_bool 30 ''group_1'' carol example_db =
       (Inl internal_server_error, example_db)"
  by (simp add: get_group_def join_group_def example_defs)

text \<open>The branches that the claim describes, with a handle that tests true.\<close>

lemma secret_group_access:
  assumes "groups db = Some gs"
    and "find_one (\<lambda>g. g_id g = group_id \<and> g_is_active g) gs = Some grp"
    and "g_type grp = ''secret''"
  shows "(u_id current_user \<notin> set (member_ids grp) \<and> u_id current_user \<notin> set (admin_ids grp) \<and>
          u_id current_user \<noteq> g_creator_id grp \<longrightarrow>
            get_group (Inr True) group_id current_user db =
              (Inl (HTTPException HTTP_403_FORBIDDEN ''Not authorized to view this secret group''), db))
       \<and> join_group (Inr True) now group_id caller db =
            (Inl (HTTPException HTTP_403_FORBIDDEN ''Cannot join a secret group without invitation''),
             db)"
  using assms by (simp add: get_group_def join_group_def)

text \<open>
  A get request that passes the checks ends in \<^verbatim>\<open>GroupResponse(**response_dict)\<close>, which
  finds no \<^verbatim>\<open>_id\<close> among the keys: \<^verbatim>\<open>get_group\<close> never answers with a group.
\<close>

lemma get_group_never_succeeds:
  "fst (get_group coll_bool group_id current_user db) \<noteq> Inr resp"
  by (auto simp: get_group_def validate_required_def GroupResponse_required_def
        Group_model_dump_keys_def split: option.splits sum.splits)

text \<open>
  C10.  The group list asked with \<^verbatim>\<open>group_type=secret\<close> includes every active secret group,
  for every authenticated user.  \<^verbatim>\<open>get_groups\<close> begins with \<^verbatim>\<open>if not groups_collection:\<close>:
  on the handle of the repository the request is answered with 500 and lists no group.
\<close>

theorem group_list_raises:
  "g_is_active cabal \<and> g_type cabal = ''secret''
   \<and> get_groups motor_bool 0 10 (Some SECRET) bob example_db =
       (Inl internal_server_error, example_db)"
  by (simp add: get_groups_def example_defs)

text \<open>
  The query that the claim describes, with a handle that tests true: no membership or
  administrator check is made, and an active secret group is on the page that covers its
  rank among the active secret groups, newest first.
\<close>

lemma secret_groups_listed_by_filter:
  assumes gs: "groups db = Some gs" and g: "g \<in> set gs" "g_is_active g" "g_type g = ''secret''"
    and lim: "1 \<le> limit" "limit \<le> 100"
  shows "(\<exists>skip. \<forall>current_user. \<exists>page.
            get_groups (Inr True) skip limit (Some SECRET) current_user db = (Inr page, db) \<and>
            g \<in> set page)
       \<and> (length (filter (\<lambda>x. g_is_active x \<and> g_type x = ''secret'') gs) \<le> limit \<longrightarrow>
            (\<forall>current_user. \<exists>page.
               get_groups (Inr True) 0 limit (Some SECRET) current_user db = (Inr page, db) \<and>
               g \<in> set page))"
proof
  let ?xs = "sort_desc g_created_at (find_many (\<lambda>x. g_is_active x \<and> g_type x = ''secret'') gs)"
  have "g \<in> set ?xs" using g by (simp add: sort_desc_def find_many_def)
  then obtain i where i: "i < length ?xs" "?xs ! i = g" by (auto simp: in_set_conv_nth)
  then have "drop i ?xs = g # drop (Suc i) ?xs" by (simp add: Cons_nth_drop_Suc [symmetric])
  then have "g \<in> set (take limit (drop i ?xs))" using lim by (cases limit) auto
  then show "\<exists>skip. \<forall>current_user. \<exists>page.
            get_groups (Inr True) skip limit (Some SECRET) current_user db = (Inr page, db) \<and>
            g \<in> set page"
    using gs lim by (intro exI [of _ i]) (simp add: get_groups_def to_list_def)
next
  show "length (filter (\<lambda>x. g_is_active x \<and> g_type x = ''secret'') gs) \<le> limit \<longrightarrow>
            (\<forall>current_user. \<exists>page.
               get_groups (Inr True) 0 limit (Some SECRET) current_user db = (Inr page, db) \<and>
               g \<in> set page)"
    using gs g lim by (simp add: get_groups_def to_list_def sort_desc_def find_many_def)
qed

subsection \<open>Events\<close>

text \<open>
  C7.  For an active private event, a get request by an outsider fails with 403 and a get
  request by a member succeeds with the event.  \<^verbatim>\<open>get_event\<close> ends in
  \<^verbatim>\<open>EventResponse(**response_dict)\<close>, where \<^verbatim>\<open>response_dict\<close> is the dump of \<^verbatim>\<open>Event\<close> and
  has the identifier under \<^verbatim>\<open>id\<close>, not under the alias \<^verbatim>\<open>_id\<close> that the model requires:
  the request of the member \<open>bob\<close> is answered with 500 even where the handle tests true.
  On the handle of the repository the first truth test raises, for member and outsider.
\<close>

theorem private_event_member_gets_error:
  "e_is_active party \<and> privacy party = ''private'' \<and> u_id bob \<in> set (members party)
   \<and> get_event (Inr True) ''event_1'' bob example_db = (Inl internal_server_error, example_db)
   \<and> get_event motor_bool ''event_1'' bob example_db = (Inl internal_server_error, example_db)
   \<and> get_event motor_bool ''event_1'' carol example_db = (Inl internal_server_error, example_db)"
  by (simp add: get_event_def find_one_def validate_required_def EventResponse_required_def
        Event_model_dump_keys_def example_defs)

text \<open>No get request for an event is answered with the event.\<close>

lemma get_event_never_succeeds:
  "fst (get_event coll_bool event_id current_user db) \<noteq> Inr resp"
  by (auto simp: get_event_def validate_required_def EventResponse_required_def
        Event_model_dump_keys_def split: option.splits sum.splits)

text \<open>The refusal that the claim describes, with a handle that tests true.\<close>

lemma private_event_outsider:
  assumes "events db = Some es"
    and "find_one (\<lambda>e. e_id e = event_id \<and> e_is_active e) es = Some ev"
    and "privacy ev = ''private''"
    and "u_id current_user \<notin> set (members ev)" "u_id current_user \<notin> set (organizers ev)"
    and "u_id current_user \<noteq> e_creator_id ev"
  shows "get_event (Inr True) event_id current_user db =
           (Inl (HTTPException HTTP_403_FORBIDDEN ''Not authorized to view this private event''), db)"
  using assms by (simp add: get_event_def)

subsection \<open>Authentication and registration\<close>

text \<open>A token that does not decode, or whose subject is in no user document, is refused.\<close>

lemma get_current_user_unauthorized:
  assumes "jwt_decode token = None \<or>
           (\<exists>pl. jwt_decode token = Some pl \<and>
                 (map_of pl ''sub'' = None \<or>
                  (\<exists>uid us. map_of pl ''sub'' = Some uid \<and> users db = Some us \<and>
                            uid \<notin> u_id ` set us)))"
  shows "get_current_user jwt_decode token db =
           Inl (HTTPException HTTP_401_UNAUTHORIZED ''Could not validate credentials'')"
  using assms
  by (auto simp: get_current_user_def find_one_def find_None_iff split: option.splits)

text \<open>
  C4.  A valid token whose subject is a soft-deleted user does not authenticate.  The lookup
  of \<^verbatim>\<open>get_current_user\<close> is \<^verbatim>\<open>find_one({"_id": user_id})\<close>, without the \<open>is_active\<close> filter
  that \<^verbatim>\<open>get_user\<close> and \<^verbatim>\<open>validate_user_exists\<close> apply and without the test that \<^verbatim>\<open>login\<close>
  makes: the deleted user is returned as the current user.
\<close>

theorem get_current_user_accepts_deleted_user:
  "get_current_user example_jwt_decode ''token_dave'' example_db = Inr dave
   \<and> u_is_active dave = False
   \<and> get_user ''user_4'' alice example_db =
       (Inl (HTTPException HTTP_404_NOT_FOUND ''User not found''), example_db)"
  by (simp add: get_current_user_def get_user_def find_one_def example_defs)

text \<open>
  C9.  Registering an email that an active user holds fails with 400 (the status of the
  Conflict/BadRequest class) and leaves the store as it was; once the holder, the only active
  user with that email, has deleted the account, registering the email succeeds and inserts
  the new, active user.
\<close>

theorem register_duplicate_email:
  assumes us: "users db = Some us"
    and dist: "distinct (map u_id us)"
    and h: "h \<in> set us" "u_is_active h" "email h = uc_email user_data"
    and only: "\<forall>u\<in>set us. u_is_active u \<and> email u = uc_email user_data \<longrightarrow> u = h"
  shows "register hashpw now ts user_data db =
           (Inl (HTTPException HTTP_400_BAD_REQUEST ''Email already registered''), db)
       \<and> (\<exists>us' new.
             delete_user now' (u_id h) h db = (Inr (), db\<lparr>users := Some us'\<rparr>) \<and>
             find_one (\<lambda>u. u_id u = u_id h) us' =
               Some (h\<lparr>u_is_active := False, u_updated_at := now'\<rparr>) \<and>
             register hashpw now'' ts' user_data (db\<lparr>users := Some us'\<rparr>) =
               (Inr new, db\<lparr>users := Some (us' @ [new])\<rparr>) \<and>
             email new = uc_email user_data \<and> u_is_active new)"
proof
  have "find (\<lambda>u. email u = uc_email user_data \<and> u_is_active u) us \<noteq> None"
    using h by (auto simp: find_None_iff)
  then show "register hashpw now ts user_data db =
           (Inl (HTTPException HTTP_400_BAD_REQUEST ''Email already registered''), db)"
    using us by (auto simp: register_def validate_email_unique_def find_one_def)
next
  let ?upd = "\<lambda>u. u\<lparr>u_is_active := False, u_updated_at := now'\<rparr>"
  let ?us' = "update_one (\<lambda>u. u_id u = u_id h) ?upd us"
  have f1: "find (\<lambda>u. u_id u = u_id h \<and> u_is_active u) us \<noteq> None"
    using h by (auto simp: find_None_iff)
  have del: "delete_user now' (u_id h) h db = (Inr (), db\<lparr>users := Some ?us'\<rparr>)"
    using us f1 by (auto simp: delete_user_def find_one_def)
  have rb: "find_one (\<lambda>u. u_id u = u_id h) ?us' = Some (?upd h)"
    unfolding find_one_def using dist h(1) by (intro find_update_one) auto
  have set': "set ?us' = insert (?upd h) (set us - {h})"
    using dist h(1) by (rule update_one_set)
  have none: "find (\<lambda>u. email u = uc_email user_data \<and> u_is_active u) ?us' = None"
    using only by (auto simp: find_None_iff set')
  have reg: "\<exists>new. register hashpw now'' ts' user_data (db\<lparr>users := Some ?us'\<rparr>) =
               (Inr new, db\<lparr>users := Some (?us' @ [new])\<rparr>) \<and>
             email new = uc_email user_data \<and> u_is_active new"
    using none
    by (simp add: register_def validate_email_unique_def find_one_def insert_one_def Let_def)
  show "\<exists>us' new.
             delete_user now' (u_id h) h db = (Inr (), db\<lparr>users := Some us'\<rparr>) \<and>
             find_one (\<lambda>u. u_id u = u_id h) us' =
               Some (h\<lparr>u_is_active := False, u_updated_at := now'\<rparr>) \<and>
             register hashpw now'' ts' user_data (db\<lparr>users := Some us'\<rparr>) =
               (Inr new, db\<lparr>users := Some (us' @ [new])\<rparr>) \<and>
             email new = uc_email user_data \<and> u_is_active new"
    using del rb reg by blast
qed

theorem register_duplicate_email_witness:
  "register id 40 ''40.0'' alice_again example_db =
     (Inl (HTTPException HTTP_400_BAD_REQUEST ''Email already registered''), example_db)
   \<and> (\<exists>us' new.
         delete_user 41 (u_id alice) alice example_db = (Inr (), example_db\<lparr>users := Some us'\<rparr>) \<and>
         find_one (\<lambda>u. u_id u = u_id alice) us' =
           Some (alice\<lparr>u_is_active := False, u_updated_at := 41\<rparr>) \<and>
         register id 42 ''42.0'' alice_again (example_db\<lparr>users := Some us'\<rparr>) =
           (Inr new, example_db\<lparr>users := Some (us' @ [new])\<rparr>) \<and>
         email new = uc_email alice_again \<and> u_is_active new)"
  by (rule register_duplicate_email [where us = "[alice, bob, carol, dave]"])
     (simp_all add: example_defs)

subsection \<open>Polls\<close>

text \<open>
  C3.  On an active poll that does not allow multiple votes, the first vote of a participant
  for a declared answer succeeds and adds exactly one to \<open>total_responses\<close> and to the
  counter of the chosen answer.  Three things stand in the way.  \<^verbatim>\<open>vote_poll\<close> begins with
  \<^verbatim>\<open>if not polls_collection:\<close>: on the handle of the repository the first vote of \<open>bob\<close>
  is answered with 500 and nothing is recorded.  Where the handle tests true, a vote on a
  poll as \<^verbatim>\<open>create_poll\<close> stores it raises at \<^verbatim>\<open>question["_id"]\<close>; and a vote for the
  declared answer \<^verbatim>\<open>v1.0\<close> succeeds and adds one to \<open>total_responses\<close>, while the store
  reads the path \<^verbatim>\<open>response_counts.v1.0\<close> as field \<^verbatim>\<open>0\<close> inside field \<^verbatim>\<open>v1\<close> and the
  counter of \<^verbatim>\<open>v1.0\<close> stays at 2.
\<close>

theorem first_vote_not_counted:
  "vote_poll motor_bool 50 ''50.0'' vote_pizza bob example_db =
     (Inl internal_server_error, example_db)
   \<and> vote_poll (Inr True) 50 ''50.0'' vote_yes bob example_db =
     (Inl internal_server_error, example_db)
   \<and> vote_poll (Inr True) 50 ''50.0'' vote_v1 bob example_db =
     (Inr \<lparr> success = True, message = ''Vote recorded successfully'', vr_poll_id = ''poll_2'',
            vr_question_id = ''question_2'', chosen_answer = ''v1.0'', total_votes = 3 \<rparr>,
      example_db
        \<lparr>votes := Some [\<lparr> v_id = ''vote_50.0'', v_poll_id = ''poll_2'',
                          v_question_id = ''question_2'', v_user_id = ''user_2'',
                          v_answer = ''v1.0'', v_created_at = 50 \<rparr>],
         polls := Some [lunch,
                        release\<lparr>total_responses := 3,
                                questions :=
                                  [version\<lparr>response_counts :=
                                            [(''v1.0'', BInt 2), (''v2'', BInt 0),
                                             (''v1'', BDoc [(''0'', BInt 1)])]\<rparr>]\<rparr>,
                        draft]\<rparr>)"
  by (simp add: vote_poll_def inc_vote_def inc_response_count_def find_one_def insert_one_def
        Let_def example_defs)

text \<open>
  The course that the claim describes: with handles that test true, a poll whose questions
  all carry \<^verbatim>\<open>_id\<close> and a declared answer that is not empty and has no dot, the first vote
  succeeds, \<open>total_responses\<close> and the counter of the answer are one higher, the other
  counters of the question are as before, and a second vote of the same user on the poll
  fails with 400 and writes nothing.
\<close>

lemma vote_once:
  assumes ps: "polls db = Some ps" and dist: "distinct (map p_id ps)"
    and pl: "find_one (\<lambda>p. p_id p = vc_poll_id vote_data \<and> p_is_active p) ps = Some pl"
    and single: "\<not> allow_multiple_votes pl"
    and es: "events db = Some es"
    and ev: "find_one (\<lambda>e. e_id e = p_event_id pl \<and> e_is_active e) es = Some ev"
    and part: "u_id current_user \<in> set (members ev) \<or> u_id current_user \<in> set (organizers ev)"
    and vs: "votes db = Some vs"
    and first: "find_one (\<lambda>v. v_poll_id v = vc_poll_id vote_data \<and>
                              v_user_id v = u_id current_user) vs = None"
    and ids: "list_all (\<lambda>q. q_id q \<noteq> None) (questions pl)"
    and qu: "find (\<lambda>q. q_id q = Some (vc_question_id vote_data)) (questions pl) = Some qu"
    and ans: "vc_answer vote_data \<in> set (answers qu)"
    and plain: "vc_answer vote_data \<noteq> []" "CHR ''.'' \<notin> set (vc_answer vote_data)"
    and counter: "map_of (response_counts qu) (vc_answer vote_data) = Some (BInt n)"
    and again: "vc_poll_id vote_data2 = vc_poll_id vote_data"
  shows "\<exists>resp vs' ps' pl' qu'.
           vote_poll (Inr True) now ts vote_data current_user db =
             (Inr resp, db\<lparr>votes := Some vs', polls := Some ps'\<rparr>) \<and>
           success resp \<and>
           find_one (\<lambda>p. p_id p = vc_poll_id vote_data \<and> p_is_active p) ps' = Some pl' \<and>
           total_responses pl' = total_responses pl + 1 \<and>
           find (\<lambda>q. q_id q = Some (vc_question_id vote_data)) (questions pl') = Some qu' \<and>
           map_of (response_counts qu') (vc_answer vote_data) = Some (BInt (n + 1)) \<and>
           (\<forall>b. b \<noteq> vc_answer vote_data \<longrightarrow>
                map_of (response_counts qu') b = map_of (response_counts qu) b) \<and>
           vote_poll (Inr True) now2 ts2 vote_data2 current_user
               (db\<lparr>votes := Some vs', polls := Some ps'\<rparr>) =
             (Inl (HTTPException HTTP_400_BAD_REQUEST ''You have already voted in this poll''),
              db\<lparr>votes := Some vs', polls := Some ps'\<rparr>)"
proof -
  let ?pid = "vc_poll_id vote_data" and ?qid = "vc_question_id vote_data"
  let ?a = "vc_answer vote_data"
  let ?hq = "\<lambda>q. q\<lparr>response_counts := AList.update ?a (BInt (n + 1)) (response_counts q)\<rparr>"
  let ?g = "\<lambda>p. p\<lparr>total_responses := total_responses p + 1,
                    questions := update_one (\<lambda>q. q_id q = Some ?qid) ?hq (questions p)\<rparr>"
  let ?Q = "\<lambda>p. p_id p = ?pid \<and> list_ex (\<lambda>q. q_id q = Some ?qid) (questions p)"
  let ?ps' = "update_one ?Q ?g ps"
  let ?v = "\<lparr> v_id = ''vote_'' @ ts, v_poll_id = ?pid, v_question_id = ?qid,
              v_user_id = u_id current_user, v_answer = ?a, v_created_at = now \<rparr>"
  let ?vs' = "vs @ [?v]"
  let ?db' = "db\<lparr>votes := Some ?vs', polls := Some ?ps'\<rparr>"
  from pl have plm: "pl \<in> set ps" "p_id pl = ?pid" "p_is_active pl"
    by (auto simp: find_one_def dest: find_Some_mem)
  from qu have qum: "qu \<in> set (questions pl)" "q_id qu = Some ?qid"
    by (auto dest: find_Some_mem)
  then have ex: "list_ex (\<lambda>q. q_id q = Some ?qid) (questions pl)"
    by (auto simp: list_ex_iff)
  have Q_eq: "?Q y = (p_id y = p_id pl)" if "y \<in> set ps" for y
    using distinct_same_key [OF dist plm(1) that] plm(2) ex by auto
  have ps'_eq: "?ps' = update_one (\<lambda>p. p_id p = p_id pl) ?g ps"
    by (rule update_one_query_cong) (rule Q_eq)
  have fQ: "find ?Q ps = Some pl"
    using find_query_cong [of ps ?Q "\<lambda>p. p_id p = p_id pl"] Q_eq find_distinct [OF dist plm(1)]
    by simp
  have iv: "inc_vote ?qid ?a pl = Inr (?g pl)"
    using qu counter plain
    by (simp add: inc_vote_def inc_response_count_plain
          update_one_try_ok [where x = qu and g = ?hq])
  have upd: "update_one_try ?Q (inc_vote ?qid ?a) ps = Inr ?ps'"
    using fQ iv by (rule update_one_try_ok)
  have f_act: "find_one (\<lambda>p. p_id p = ?pid \<and> p_is_active p) ?ps' = Some (?g pl)"
    unfolding find_one_def ps'_eq using dist plm by (intro find_update_one) auto
  have fq: "find (\<lambda>q. q_id q = Some ?qid) (questions (?g pl)) = Some (?hq qu)"
    using qu qum by (simp add: find_update_one_same)
  have cnt: "map_of (response_counts (?hq qu)) ?a = Some (BInt (n + 1))"
    by (simp add: update_conv')
  have others: "\<forall>b. b \<noteq> ?a \<longrightarrow>
                  map_of (response_counts (?hq qu)) b = map_of (response_counts qu) b"
    by (simp add: update_conv')
  have fqn: "find_question ?qid (questions pl) = Inr (Some qu)"
    using ids qu by (simp add: find_question_all_ids)
  have v1: "\<exists>resp. vote_poll (Inr True) now ts vote_data current_user db = (Inr resp, ?db') \<and>
                   success resp"
    using ps pl single es ev part vs first fqn ans upd
    by (simp add: vote_poll_def insert_one_def Let_def)
  have prior: "find_one (\<lambda>v. v_poll_id v = vc_poll_id vote_data2 \<and>
                  v_user_id v = u_id current_user) ?vs' \<noteq> None"
    using again by (auto simp: find_one_def find_None_iff intro!: exI [of _ ?v])
  have v2: "vote_poll (Inr True) now2 ts2 vote_data2 current_user ?db' =
             (Inl (HTTPException HTTP_400_BAD_REQUEST ''You have already voted in this poll''), ?db')"
    using f_act single es ev part prior again
    by (auto simp: vote_poll_def split: option.splits)
  from v1 obtain resp where r: "vote_poll (Inr True) now ts vote_data current_user db =
      (Inr resp, ?db')" "success resp" by blast
  show ?thesis
    apply (rule exI [of _ resp], rule exI [of _ ?vs'], rule exI [of _ ?ps'])
    apply (rule exI [of _ "?g pl"], rule exI [of _ "?hq qu"])
    using r f_act fq cnt others v2 by simp
qed




subsection \<open>Tickets\<close>

text \<open>
  C6.  A purchase fails with 400 when no inventory remains or when the buyer holds
  \<open>max_per_person\<close> valid tickets of the type; otherwise it creates a ticket and adds one
  to \<open>sold_count\<close>.  \<^verbatim>\<open>purchase_ticket\<close> begins with \<^verbatim>\<open>if not ticket_types_collection:\<close>: on
  the handle of the repository the purchase of a sold-out type is answered with 500 instead
  of 400, and so is a purchase that the rules allow, which creates no ticket.
\<close>

theorem purchase_raises:
  "tt_is_active vip \<and> quantity vip - sold_count vip = 0
   \<and> purchase_ticket motor_bool 60 ''60.0'' ''20240102'' buy_vip carol example_db =
       (Inl internal_server_error, example_db)
   \<and> tt_is_active standard \<and> 0 < quantity standard - sold_count standard
   \<and> purchase_ticket motor_bool 60 ''60.0'' ''20240102'' buy_standard carol example_db =
       (Inl internal_server_error, example_db)"
  by (simp add: purchase_ticket_def example_defs)

text \<open>The branches that the claim describes, with handles that test true.\<close>

lemma purchase_rules:
  assumes tts: "ticket_types db = Some tts" and dist: "distinct (map tt_id tts)"
    and tt: "find_one (\<lambda>t. tt_id t = tp_ticket_type_id purchase_data \<and> tt_is_active t) tts = Some tt"
    and tks: "tickets db = Some tks"
    and held: "held = count_documents
                 (\<lambda>t. t_ticket_type_id t = tp_ticket_type_id purchase_data \<and>
                      buyer_id t = u_id current_user \<and> is_valid t) tks"
  shows "(quantity tt - sold_count tt \<le> 0 \<longrightarrow>
            purchase_ticket (Inr True) now ts ymd purchase_data current_user db =
              (Inl (HTTPException HTTP_400_BAD_REQUEST ''No tickets available for this type''), db))
       \<and> (0 < quantity tt - sold_count tt \<and> max_per_person tt \<le> int held \<longrightarrow>
            purchase_ticket (Inr True) now ts ymd purchase_data current_user db =
              (Inl (HTTPException HTTP_400_BAD_REQUEST
                      (''Maximum '' @ str_int (max_per_person tt) @
                       '' ticket(s) per person reached'')), db))
       \<and> (0 < quantity tt - sold_count tt \<and> int held < max_per_person tt \<longrightarrow>
            (\<exists>tk tts'.
               purchase_ticket (Inr True) now ts ymd purchase_data current_user db =
                 (Inr tk, db\<lparr>tickets := Some (tks @ [tk]), ticket_types := Some tts'\<rparr>) \<and>
               t_ticket_type_id tk = tp_ticket_type_id purchase_data \<and>
               buyer_id tk = u_id current_user \<and> is_valid tk \<and>
               find_one (\<lambda>t. tt_id t = tp_ticket_type_id purchase_data \<and> tt_is_active t) tts' =
                 Some (tt\<lparr>sold_count := sold_count tt + 1\<rparr>)))"
proof (intro conjI impI)
  assume "quantity tt - sold_count tt \<le> 0"
  then show "purchase_ticket (Inr True) now ts ymd purchase_data current_user db =
      (Inl (HTTPException HTTP_400_BAD_REQUEST ''No tickets available for this type''), db)"
    using tts tt by (simp add: purchase_ticket_def)
next
  assume "0 < quantity tt - sold_count tt \<and> max_per_person tt \<le> int held"
  then show "purchase_ticket (Inr True) now ts ymd purchase_data current_user db =
              (Inl (HTTPException HTTP_400_BAD_REQUEST
                      (''Maximum '' @ str_int (max_per_person tt) @
                       '' ticket(s) per person reached'')), db)"
    using tts tt tks held by (simp add: purchase_ticket_def)
next
  assume a: "0 < quantity tt - sold_count tt \<and> int held < max_per_person tt"
  let ?g = "\<lambda>t. t\<lparr>sold_count := sold_count t + 1\<rparr>"
  let ?tk = "\<lparr> t_id = ''ticket_'' @ ts @ ''_'' @ u_id current_user,
               ticket_number = ''TKT-'' @ ymd @ ''-'' @ last6 (u_id current_user),
               t_ticket_type_id = tp_ticket_type_id purchase_data,
               t_event_id = tt_event_id tt,
               buyer_id = u_id current_user,
               buyer_info = tp_buyer_info purchase_data,
               purchase_date = now,
               is_valid = True,
               checked_in = False,
               checked_in_at = None \<rparr>"
  from tt have m: "tt \<in> set tts" "tt_id tt = tp_ticket_type_id purchase_data" "tt_is_active tt"
    by (auto simp: find_one_def dest: find_Some_mem)
  have f: "find_one (\<lambda>t. tt_id t = tp_ticket_type_id purchase_data \<and> tt_is_active t)
             (update_one (\<lambda>t. tt_id t = tt_id tt) ?g tts) = Some (?g tt)"
    unfolding find_one_def using dist m by (intro find_update_one) auto
  show "\<exists>tk tts'.
               purchase_ticket (Inr True) now ts ymd purchase_data current_user db =
                 (Inr tk, db\<lparr>tickets := Some (tks @ [tk]), ticket_types := Some tts'\<rparr>) \<and>
               t_ticket_type_id tk = tp_ticket_type_id purchase_data \<and>
               buyer_id tk = u_id current_user \<and> is_valid tk \<and>
               find_one (\<lambda>t. tt_id t = tp_ticket_type_id purchase_data \<and> tt_is_active t) tts' =
                 Some (tt\<lparr>sold_count := sold_count tt + 1\<rparr>)"
  proof (intro exI conjI)
    show "purchase_ticket (Inr True) now ts ymd purchase_data current_user db =
        (Inr ?tk, db\<lparr>tickets := Some (tks @ [?tk]),
                     ticket_types := Some (update_one (\<lambda>t. tt_id t = tt_id tt) ?g tts)\<rparr>)"
      using a tts tt tks held m(2) by (simp add: purchase_ticket_def insert_one_def Let_def)
  qed (use f in simp_all)
qed

end
